theory Spec2Isabelle
  imports Complex_Main
begin

section \<open>Errors (core/mpesa/utils/errors.py)\<close>

text \<open>
  A value of \<open>exn\<close> is a raised Python exception object that derives from
  \<open>Exception\<close>. The classes of \<open>errors.py\<close> are constructors carrying the
  attributes their \<open>__init__\<close> sets: \<open>MpesaError\<close> (message, code, status_code),
  \<open>MpesaNetworkError\<close> (message, is_retryable), \<open>MpesaRateLimitError\<close> (message,
  retry_after, details), \<open>MpesaApiError\<close> (message, code, status_code). The built-in
  classes the code can raise carry their message. \<open>OtherError\<close> is any other exception:
  its message and its \<open>name\<close> and \<open>code\<close> attributes, where it has them.
  The \<open>details\<close> payload is kept only where the limiter fills it.
\<close>

datatype exn =
    MpesaError string "string option" "int option"
  | MpesaAuthError string
  | MpesaValidationError string
  | MpesaNetworkError string bool
  | MpesaTimeoutError string
  | MpesaRateLimitError string "int option" "(string \<times> int) list"
  | MpesaApiError string string int
  | TypeError string
  | ValueError string
  | KeyError string
  | AttributeError string
  | OtherError string "string option" "string option"

fun class_name :: "exn \<Rightarrow> string" where
  "class_name (MpesaError _ _ _) = ''MpesaError''"
| "class_name (MpesaAuthError _) = ''MpesaAuthError''"
| "class_name (MpesaValidationError _) = ''MpesaValidationError''"
| "class_name (MpesaNetworkError _ _) = ''MpesaNetworkError''"
| "class_name (MpesaTimeoutError _) = ''MpesaTimeoutError''"
| "class_name (MpesaRateLimitError _ _ _) = ''MpesaRateLimitError''"
| "class_name (MpesaApiError _ _ _) = ''MpesaApiError''"
| "class_name (TypeError _) = ''TypeError''"
| "class_name (ValueError _) = ''ValueError''"
| "class_name (KeyError _) = ''KeyError''"
| "class_name (AttributeError _) = ''AttributeError''"
| "class_name (OtherError _ _ _) = ''Exception''"

text \<open>\<open>isinstance(error, MpesaError)\<close>: the base class and its six subclasses.\<close>

fun is_MpesaError :: "exn \<Rightarrow> bool" where
  "is_MpesaError (MpesaError _ _ _) = True"
| "is_MpesaError (MpesaAuthError _) = True"
| "is_MpesaError (MpesaValidationError _) = True"
| "is_MpesaError (MpesaNetworkError _ _) = True"
| "is_MpesaError (MpesaTimeoutError _) = True"
| "is_MpesaError (MpesaRateLimitError _ _ _) = True"
| "is_MpesaError (MpesaApiError _ _ _) = True"
| "is_MpesaError _ = False"

text \<open>
  \<open>getattr(error, "status_code", None)\<close>: each subclass passes a fixed status to
  \<open>MpesaError.__init__\<close>; other exceptions have no such attribute.
\<close>

fun status_code :: "exn \<Rightarrow> int option" where
  "status_code (MpesaError _ _ sc) = sc"
| "status_code (MpesaAuthError _) = Some 401"
| "status_code (MpesaValidationError _) = Some 400"
| "status_code (MpesaNetworkError _ _) = Some 503"
| "status_code (MpesaTimeoutError _) = Some 408"
| "status_code (MpesaRateLimitError _ _ _) = Some 429"
| "status_code (MpesaApiError _ _ sc) = Some sc"
| "status_code _ = None"

text \<open>\<open>getattr(error, "code", None)\<close> and \<open>getattr(error, "name", None)\<close>.\<close>

fun code_attr :: "exn \<Rightarrow> string option" where
  "code_attr (MpesaError _ c _) = c"
| "code_attr (MpesaAuthError _) = Some ''AUTH_ERROR''"
| "code_attr (MpesaValidationError _) = Some ''VALIDATION_ERROR''"
| "code_attr (MpesaNetworkError _ _) = Some ''NETWORK_ERROR''"
| "code_attr (MpesaTimeoutError _) = Some ''TIMEOUT_ERROR''"
| "code_attr (MpesaRateLimitError _ _ _) = Some ''RATE_LIMIT_ERROR''"
| "code_attr (MpesaApiError _ c _) = Some c"
| "code_attr (OtherError _ _ c) = c"
| "code_attr _ = None"

fun name_attr :: "exn \<Rightarrow> string option" where
  "name_attr (OtherError _ n _) = n"
| "name_attr _ = None"

text \<open>Python truthiness of an optional integer: \<open>None\<close> and \<open>0\<close> are false.\<close>

fun truthy_int :: "int option \<Rightarrow> bool" where
  "truthy_int None = False"
| "truthy_int (Some n) = (n \<noteq> 0)"

text \<open>
  Subscripting an exception object (\<open>error["status_code"]\<close>, \<open>error["retry_after"]\<close>):
  \<open>Exception\<close> defines no \<open>__getitem__\<close> and neither does any class of
  \<open>errors.py\<close>, so the subscript raises \<open>TypeError\<close> whatever the key.
\<close>

definition subscript_exn :: "exn \<Rightarrow> string \<Rightarrow> exn + int" where
  "subscript_exn error k =
     Inl (TypeError ([CHR 0x27] @ class_name error @ [CHR 0x27] @ '' object is not subscriptable''))"

section \<open>Retry engine (core/mpesa/utils/retry.py)\<close>

text \<open>
  \<open>isRetryableError\<close>, rule by rule in the source's order. The third rule subscripts
  the exception, so it returns no boolean: it raises.
\<close>

definition isRetryableError :: "exn \<Rightarrow> int list \<Rightarrow> exn + bool" where
  "isRetryableError error retryableStatusCodes =
     (case error of
        MpesaNetworkError _ is_retryable \<Rightarrow> Inr is_retryable
      | MpesaRateLimitError _ _ _ \<Rightarrow> Inr True
      | _ \<Rightarrow>
          if is_MpesaError error \<and> truthy_int (status_code error) then
            (case subscript_exn error ''status_code'' of
               Inl e \<Rightarrow> Inl e
             | Inr sc \<Rightarrow> Inr (sc \<in> set retryableStatusCodes))
          else if name_attr error = Some ''FetchError''
                  \<or> code_attr error \<in> {Some ''ECONNREFUSED'', Some ''ETIMEDOUT''} then Inr True
          else Inr False)"

text \<open>
  \<open>RetryOptions\<close> is a partial dictionary; \<open>retryWithBackoff\<close> merges it over
  \<open>DEFAULT_RETRY_OPTIONS\<close> key by key. \<open>onRetry\<close> is the caller's callback: it
  returns \<open>None\<close>, or raises (\<open>Some e\<close>).
\<close>

record RetryOptions =
  maxRetries_opt :: "int option"
  initialDelayMs_opt :: "int option"
  maxDelayMs_opt :: "int option"
  backoffMultiplier_opt :: "int option"
  retryableStatusCodes_opt :: "int list option"
  onRetry_opt :: "(exn \<Rightarrow> int \<Rightarrow> exn option) option"

record retry_opts =
  maxRetries :: int
  initialDelayMs :: int
  maxDelayMs :: int
  backoffMultiplier :: int
  retryableStatusCodes :: "int list"
  onRetry :: "exn \<Rightarrow> int \<Rightarrow> exn option"

definition noop_on_retry :: "exn \<Rightarrow> int \<Rightarrow> exn option" where
  "noop_on_retry error attempt = None"

definition DEFAULT_RETRY_OPTIONS :: retry_opts where
  "DEFAULT_RETRY_OPTIONS =
     \<lparr> maxRetries = 3, initialDelayMs = 1000, maxDelayMs = 10000, backoffMultiplier = 2,
       retryableStatusCodes = [408, 429, 500, 502, 503, 504], onRetry = noop_on_retry \<rparr>"

definition no_options :: RetryOptions where
  "no_options =
     \<lparr> maxRetries_opt = None, initialDelayMs_opt = None, maxDelayMs_opt = None,
       backoffMultiplier_opt = None, retryableStatusCodes_opt = None, onRetry_opt = None \<rparr>"

fun or_default :: "'a option \<Rightarrow> 'a \<Rightarrow> 'a" where
  "or_default None d = d"
| "or_default (Some v) d = v"

text \<open>\<open>{**DEFAULT_RETRY_OPTIONS, **(options or {})}\<close>.\<close>

definition merge_options :: "RetryOptions option \<Rightarrow> retry_opts" where
  "merge_options options =
     (let d = DEFAULT_RETRY_OPTIONS; p = or_default options no_options in
      \<lparr> maxRetries = or_default (maxRetries_opt p) (maxRetries d),
        initialDelayMs = or_default (initialDelayMs_opt p) (initialDelayMs d),
        maxDelayMs = or_default (maxDelayMs_opt p) (maxDelayMs d),
        backoffMultiplier = or_default (backoffMultiplier_opt p) (backoffMultiplier d),
        retryableStatusCodes = or_default (retryableStatusCodes_opt p) (retryableStatusCodes d),
        onRetry = or_default (onRetry_opt p) (onRetry d) \<rparr>)"

text \<open>\<open>isinstance(error, MpesaRateLimitError)\<close> and \<open>getattr(error, "retry_after", None)\<close>.\<close>

fun is_MpesaRateLimitError :: "exn \<Rightarrow> bool" where
  "is_MpesaRateLimitError (MpesaRateLimitError _ _ _) = True"
| "is_MpesaRateLimitError _ = False"

fun retry_after_attr :: "exn \<Rightarrow> int option" where
  "retry_after_attr (MpesaRateLimitError _ ra _) = ra"
| "retry_after_attr _ = None"

text \<open>
  \<open>calculateDelay\<close>. A rate-limit error with a truthy \<open>retry_after\<close> takes the first
  branch, which subscripts the exception. Otherwise the capped exponential delay gets a
  jitter of up to a fifth; \<open>r\<close> is the sample \<open>random.random()\<close> returned, and the
  arithmetic is that of the rationals (the source computes in binary floating point).
\<close>

definition calculateDelay :: "nat \<Rightarrow> retry_opts \<Rightarrow> exn \<Rightarrow> rat \<Rightarrow> exn + int" where
  "calculateDelay attempt options error r =
     (if is_MpesaRateLimitError error \<and> truthy_int (retry_after_attr error) then
        (case subscript_exn error ''retry_after'' of
           Inl e \<Rightarrow> Inl e
         | Inr ra \<Rightarrow> Inr (ra * 1000))
      else
        (let delay = min (initialDelayMs options * backoffMultiplier options ^ attempt)
                         (maxDelayMs options);
             jitter = of_int delay * (2 / 10) * (r - 1 / 2) * 2
         in Inr \<lfloor>of_int delay + jitter\<rfloor>))"

text \<open>
  What a run of \<open>retryWithBackoff\<close> does besides returning: each call of \<open>fn\<close> (with
  its attempt index), each \<open>onRetry\<close> call and each \<open>asyncio.sleep\<close> (the delay in
  milliseconds), in order.
\<close>

datatype event = Attempt nat | Retry exn int | Sleep int

text \<open>
  The \<open>for\<close> loop over \<open>range(maxRetries + 1)\<close>, as a recursion over the attempt
  indices still to run. \<open>fn\<close> acts on a state \<open>'s\<close>; \<open>sleep\<close> is what suspending
  for a delay does to that state (time passes); \<open>rnd\<close> gives the random sample drawn in
  each attempt. An exception raised inside the \<open>except\<close> block (by the classifier, by
  \<open>calculateDelay\<close> or by \<open>onRetry\<close>) leaves the function at once. After the loop
  comes \<open>raise last_error\<close>, and raising \<open>None\<close> is a \<open>TypeError\<close>.
\<close>

fun retry_loop ::
  "(int \<Rightarrow> 's \<Rightarrow> 's) \<Rightarrow> (nat \<Rightarrow> rat) \<Rightarrow> ('s \<Rightarrow> (exn + 'a) \<times> 's) \<Rightarrow> retry_opts \<Rightarrow>
   nat list \<Rightarrow> exn option \<Rightarrow> 's \<Rightarrow> ((exn + 'a) \<times> 's) \<times> event list" where
  "retry_loop sleep rnd fn opts [] last_error s =
     (case last_error of
        None \<Rightarrow> ((Inl (TypeError ''exceptions must derive from BaseException''), s), [])
      | Some e \<Rightarrow> ((Inl e, s), []))"
| "retry_loop sleep rnd fn opts (attempt # rest) last_error s =
     (case fn s of
        (Inr v, s1) \<Rightarrow> ((Inr v, s1), [Attempt attempt])
      | (Inl error, s1) \<Rightarrow>
          (case isRetryableError error (retryableStatusCodes opts) of
             Inl e \<Rightarrow> ((Inl e, s1), [Attempt attempt])
           | Inr retryable \<Rightarrow>
               if \<not> retryable \<or> int attempt = maxRetries opts then
                 ((Inl error, s1), [Attempt attempt])
               else
                 (case calculateDelay attempt opts error (rnd attempt) of
                    Inl e \<Rightarrow> ((Inl e, s1), [Attempt attempt])
                  | Inr delay \<Rightarrow>
                      (case onRetry opts error (int attempt + 1) of
                         Some e \<Rightarrow> ((Inl e, s1), [Attempt attempt, Retry error (int attempt + 1)])
                       | None \<Rightarrow>
                           (let (res, evs) =
                                  retry_loop sleep rnd fn opts rest (Some error) (sleep delay s1)
                            in (res, Attempt attempt # Retry error (int attempt + 1)
                                       # Sleep delay # evs))))))"

definition retryWithBackoff ::
  "(int \<Rightarrow> 's \<Rightarrow> 's) \<Rightarrow> (nat \<Rightarrow> rat) \<Rightarrow> ('s \<Rightarrow> (exn + 'a) \<times> 's) \<Rightarrow> RetryOptions option \<Rightarrow>
   's \<Rightarrow> ((exn + 'a) \<times> 's) \<times> event list" where
  "retryWithBackoff sleep rnd fn options s =
     (let opts = merge_options options
      in retry_loop sleep rnd fn opts [0 ..< nat (maxRetries opts + 1)] None s)"

fun is_Attempt :: "event \<Rightarrow> bool" where
  "is_Attempt (Attempt _) = True"
| "is_Attempt _ = False"

fun is_Sleep :: "event \<Rightarrow> bool" where
  "is_Sleep (Sleep _) = True"
| "is_Sleep _ = False"

definition attempts :: "event list \<Rightarrow> nat" where
  "attempts evs = length (filter is_Attempt evs)"

definition sleeps :: "event list \<Rightarrow> nat" where
  "sleeps evs = length (filter is_Sleep evs)"

section \<open>Decimal strings\<close>

text \<open>
  \<open>str(n)\<close> for a Python integer, as the f-strings of the sources format it, and
  \<open>int(s)\<close> for a string of an optional sign and decimal digits. (Python's \<open>int\<close>
  also accepts surrounding white space and underscores between digits; such strings
  are not decimal numerals here and raise \<open>ValueError\<close>.)
\<close>

fun pick :: "'a list \<Rightarrow> int \<Rightarrow> 'a \<Rightarrow> 'a" where
  "pick [] i d = d"
| "pick (x # xs) i d = (if i \<le> 0 then x else pick xs (i - 1) d)"

definition digit_char :: "int \<Rightarrow> char" where
  "digit_char d = pick ''0123456789'' d (CHR ''?'')"

function str_digits :: "int \<Rightarrow> string" where
  "str_digits n =
     (if n < 10 then [digit_char n] else str_digits (n div 10) @ [digit_char (n mod 10)])"
  by pat_completeness auto
termination
  by (relation "measure nat") auto

declare str_digits.simps [simp del]

definition str_int :: "int \<Rightarrow> string" where
  "str_int i = (if i < 0 then CHR ''-'' # str_digits (- i) else str_digits i)"

definition digit_val :: "char \<Rightarrow> int option" where
  "digit_val c =
     (case filter (\<lambda>d. digit_char d = c) [0, 1, 2, 3, 4, 5, 6, 7, 8, 9] of
        [] \<Rightarrow> None | d # _ \<Rightarrow> Some d)"

fun parse_digits :: "int \<Rightarrow> string \<Rightarrow> int option" where
  "parse_digits acc [] = Some acc"
| "parse_digits acc (c # cs) =
     (case digit_val c of None \<Rightarrow> None | Some d \<Rightarrow> parse_digits (10 * acc + d) cs)"

definition py_int :: "string \<Rightarrow> exn + int" where
  "py_int s =
     (let bad = Inl (ValueError (''invalid literal for int() with base 10: '' @ s));
          (neg, ds) = (case s of
                         c # cs \<Rightarrow> if c = CHR ''-'' then (True, cs)
                                   else if c = CHR ''+'' then (False, cs) else (False, s)
                       | [] \<Rightarrow> (False, s))
      in if ds = [] then bad
         else (case parse_digits 0 ds of
                 None \<Rightarrow> bad
               | Some n \<Rightarrow> Inr (if neg then - n else n)))"

section \<open>Local rate limiter (core/mpesa/utils/ratelimiter.py, class RateLimiter)\<close>

record RateLimitEntry =
  count :: int
  resetAt :: int

record RateLimiterOptions =
  maxRequests :: int
  windowMs :: int
  keyPrefix :: string

text \<open>
  Both constructors build \<open>{"keyPrefix": "mpesa", **options}\<close>: the prefix defaults
  to \<open>mpesa\<close> when the caller's options give none.
\<close>

definition limiter_options :: "int \<Rightarrow> int \<Rightarrow> string option \<Rightarrow> RateLimiterOptions" where
  "limiter_options n w prefix =
     \<lparr> maxRequests = n, windowMs = w, keyPrefix = or_default prefix ''mpesa'' \<rparr>"

definition full_key :: "RateLimiterOptions \<Rightarrow> string \<Rightarrow> string" where
  "full_key options k = keyPrefix options @ '':'' @ k"

definition limit_message :: "int \<Rightarrow> string" where
  "limit_message retry_after =
     ''Rate limit exceeded. Try again in '' @ str_int retry_after @ '' seconds.''"

text \<open>
  \<open>RateLimiter.checkLimit\<close>. \<open>now\<close> is \<open>int(time.time() * 1000)\<close> as read by this
  call; \<open>st\<close> is \<open>self.store\<close>. A stored entry is a non-empty dictionary, so
  \<open>not entry\<close> holds exactly when the key is absent.
\<close>

definition checkLimit ::
  "RateLimiterOptions \<Rightarrow> string \<Rightarrow> int \<Rightarrow> (string \<rightharpoonup> RateLimitEntry) \<Rightarrow>
   (exn + unit) \<times> (string \<rightharpoonup> RateLimitEntry)" where
  "checkLimit options k now st =
     (let fk = full_key options k;
          fresh = \<lparr> count = 1, resetAt = now + windowMs options \<rparr>
      in case st fk of
           None \<Rightarrow> (Inr (), st(fk \<mapsto> fresh))
         | Some entry \<Rightarrow>
             if now \<ge> resetAt entry then (Inr (), st(fk \<mapsto> fresh))
             else if count entry \<ge> maxRequests options then
               (let retry_after = (resetAt entry - now + 999) div 1000
                in (Inl (MpesaRateLimitError (limit_message retry_after) (Some retry_after)
                          [(''limit'', maxRequests options),
                           (''windowMs'', windowMs options),
                           (''resetAt'', resetAt entry)]),
                    st))
             else (Inr (), st(fk \<mapsto> entry\<lparr>count := count entry + 1\<rparr>)))"

text \<open>
  A single-process sequence of calls on one key: the call times in order, the store
  threaded through, the outcomes collected.
\<close>

fun checkLimit_seq ::
  "RateLimiterOptions \<Rightarrow> string \<Rightarrow> int list \<Rightarrow> (string \<rightharpoonup> RateLimitEntry) \<Rightarrow>
   (exn + unit) list" where
  "checkLimit_seq options k [] st = []"
| "checkLimit_seq options k (now # ts) st =
     (case checkLimit options k now st of (r, st') \<Rightarrow> r # checkLimit_seq options k ts st')"

text \<open>The admit or reject decision of an outcome: admitted when nothing was raised.\<close>

fun admitted :: "exn + unit \<Rightarrow> bool" where
  "admitted (Inr _) = True"
| "admitted (Inl _) = False"

section \<open>Shared-store rate limiter (class RedisRateLimiter)\<close>

text \<open>
  The store behind \<open>RedisLike\<close> is an external collaborator. Its state is a map from
  keys to a value and an optional expiry instant (milliseconds, on the clock the
  process reads). A value is an integer counter or another string. A key whose expiry
  instant has been reached is absent. \<open>INCR\<close> creates an absent key at 1 with no
  expiry, keeps the expiry of a present one, and fails on a value that is no integer;
  \<open>EXPIRE\<close> with a positive number of seconds sets the expiry of a present key, and
  with another number removes the key; \<open>GET\<close> returns the value as a string.
\<close>

datatype rval = RInt int | RStr string

type_synonym redis_store = "string \<rightharpoonup> rval \<times> int option"

definition redis_lookup :: "redis_store \<Rightarrow> int \<Rightarrow> string \<Rightarrow> (rval \<times> int option) option" where
  "redis_lookup rs now k =
     (case rs k of
        None \<Rightarrow> None
      | Some (v, None) \<Rightarrow> Some (v, None)
      | Some (v, Some t) \<Rightarrow> if now < t then Some (v, Some t) else None)"

definition redis_get :: "redis_store \<Rightarrow> int \<Rightarrow> string \<Rightarrow> string option" where
  "redis_get rs now k =
     (case redis_lookup rs now k of
        None \<Rightarrow> None
      | Some (RInt n, _) \<Rightarrow> Some (str_int n)
      | Some (RStr s, _) \<Rightarrow> Some s)"

definition redis_incr :: "redis_store \<Rightarrow> int \<Rightarrow> string \<Rightarrow> (exn + int) \<times> redis_store" where
  "redis_incr rs now k =
     (case redis_lookup rs now k of
        None \<Rightarrow> (Inr 1, rs(k \<mapsto> (RInt 1, None)))
      | Some (RInt n, t) \<Rightarrow> (Inr (n + 1), rs(k \<mapsto> (RInt (n + 1), t)))
      | Some (RStr s, t) \<Rightarrow>
          (Inl (OtherError ''value is not an integer or out of range'' None None), rs))"

definition redis_expire :: "redis_store \<Rightarrow> int \<Rightarrow> string \<Rightarrow> int \<Rightarrow> redis_store" where
  "redis_expire rs now k seconds =
     (case redis_lookup rs now k of
        None \<Rightarrow> rs
      | Some (v, _) \<Rightarrow>
          if seconds > 0 then rs(k \<mapsto> (v, Some (now + seconds * 1000))) else rs(k := None))"

text \<open>Python truthiness of \<open>Optional[str]\<close>: \<open>None\<close> and the empty string are false.\<close>

fun truthy_str :: "string option \<Rightarrow> bool" where
  "truthy_str None = False"
| "truthy_str (Some s) = (s \<noteq> [])"

text \<open>
  \<open>RedisRateLimiter.checkLimit\<close>: increment, attach the expiry when this call
  created the counter, reject above \<open>maxRequests\<close> with the hint read from the
  companion key \<open><full_key>:ttl\<close>, or the window length when that key is absent.
\<close>

definition redis_checkLimit ::
  "RateLimiterOptions \<Rightarrow> string \<Rightarrow> int \<Rightarrow> redis_store \<Rightarrow> (exn + unit) \<times> redis_store" where
  "redis_checkLimit options k now rs =
     (let fk = full_key options k in
      case redis_incr rs now fk of
        (Inl e, rs1) \<Rightarrow> (Inl e, rs1)
      | (Inr cnt, rs1) \<Rightarrow>
          (let rs2 = (if cnt = 1 then redis_expire rs1 now fk ((windowMs options + 999) div 1000)
                      else rs1)
           in if cnt > maxRequests options then
                (let ttl = redis_get rs2 now (fk @ '':ttl'') in
                 case (case ttl of
                         Some s \<Rightarrow> if truthy_str ttl then py_int s
                                   else Inr ((windowMs options + 999) div 1000)
                       | None \<Rightarrow> Inr ((windowMs options + 999) div 1000)) of
                   Inl e \<Rightarrow> (Inl e, rs2)
                 | Inr retry_after \<Rightarrow>
                     (Inl (MpesaRateLimitError (limit_message retry_after) (Some retry_after)
                            [(''limit'', maxRequests options),
                             (''windowMs'', windowMs options)]),
                      rs2))
              else (Inr (), rs2)))"

fun redis_checkLimit_seq ::
  "RateLimiterOptions \<Rightarrow> string \<Rightarrow> int list \<Rightarrow> redis_store \<Rightarrow> (exn + unit) list" where
  "redis_checkLimit_seq options k [] rs = []"
| "redis_checkLimit_seq options k (now # ts) rs =
     (case redis_checkLimit options k now rs of
        (r, rs') \<Rightarrow> r # redis_checkLimit_seq options k ts rs')"


section \<open>Request executor (core/mpesa/client/mpesa_client.py, makeRequest)\<close>

text \<open>\<open>str(error)\<close>: the message; for a \<open>KeyError\<close> the quoted key.\<close>

fun exn_str :: "exn \<Rightarrow> string" where
  "exn_str (MpesaError m _ _) = m"
| "exn_str (MpesaAuthError m) = m"
| "exn_str (MpesaValidationError m) = m"
| "exn_str (MpesaNetworkError m _) = m"
| "exn_str (MpesaTimeoutError m) = m"
| "exn_str (MpesaRateLimitError m _ _) = m"
| "exn_str (MpesaApiError m _ _) = m"
| "exn_str (TypeError m) = m"
| "exn_str (ValueError m) = m"
| "exn_str (KeyError k) = [CHR 0x27] @ k @ [CHR 0x27]"
| "exn_str (AttributeError m) = m"
| "exn_str (OtherError m _ _) = m"

text \<open>
  The JSON error body of a non-2xx response, by the keys \<open>parse_mpesa_api_error\<close>
  reads. \<open>a or b\<close> on strings takes the first that is present and not empty.
\<close>

record error_body =
  body_errorMessage :: "string option"
  body_ResponseDescription :: "string option"
  body_message :: "string option"
  body_errorCode :: "string option"
  body_ResponseCode :: "string option"
  body_retryAfter :: "int option"

definition empty_body :: error_body where
  "empty_body =
     \<lparr> body_errorMessage = None, body_ResponseDescription = None, body_message = None,
       body_errorCode = None, body_ResponseCode = None, body_retryAfter = None \<rparr>"

fun first_truthy :: "string option list \<Rightarrow> string \<Rightarrow> string" where
  "first_truthy [] d = d"
| "first_truthy (x # xs) d = (if truthy_str x then or_default x d else first_truthy xs d)"

definition parse_mpesa_api_error :: "int \<Rightarrow> error_body \<Rightarrow> exn" where
  "parse_mpesa_api_error status response_body =
     (let error_message =
            first_truthy [body_errorMessage response_body,
                          body_ResponseDescription response_body,
                          body_message response_body] ''Unknown API error'';
          error_code =
            first_truthy [body_errorCode response_body, body_ResponseCode response_body]
              ''UNKNOWN_ERROR''
      in if status = 401 then MpesaAuthError error_message
         else if status = 403 then MpesaAuthError error_message
         else if status = 400 then MpesaValidationError error_message
         else if status = 429 then
           MpesaRateLimitError error_message (body_retryAfter response_body) []
         else if status \<ge> 500 then MpesaNetworkError error_message True
         else MpesaApiError error_message error_code status)"

text \<open>
  \<open>self.ratelimiter\<close> is a \<open>RateLimiter\<close>, a \<open>RedisRateLimiter\<close> or \<open>None\<close>.
  The constructor builds it from \<open>rateLimitOptions\<close>: an absent or empty dictionary,
  or \<open>enabled\<close> set false, gives none; \<open>maxRequests\<close> defaults to 100 and
  \<open>windowMs\<close> to 60000; a \<open>redis\<close> entry selects the shared-store limiter.
\<close>

datatype limiter = LocalLimiter RateLimiterOptions | RedisLimiter RateLimiterOptions

record RateLimitOption =
  rl_enabled :: "bool option"
  rl_maxRequests :: "int option"
  rl_windowMs :: "int option"
  rl_redis :: bool

definition client_ratelimiter :: "RateLimitOption option \<Rightarrow> limiter option" where
  "client_ratelimiter rate_opts =
     (case rate_opts of
        None \<Rightarrow> None
      | Some ro \<Rightarrow>
          if rl_enabled ro = None \<and> rl_maxRequests ro = None \<and> rl_windowMs ro = None
             \<and> \<not> rl_redis ro then None
          else if or_default (rl_enabled ro) True then
            (let limiter_config =
                   limiter_options (or_default (rl_maxRequests ro) 100)
                     (or_default (rl_windowMs ro) 60000) None
             in Some (if rl_redis ro then RedisLimiter limiter_config
                      else LocalLimiter limiter_config))
          else None)"

text \<open>
  What a call of \<open>makeRequest\<close> reads and changes: the wall clock in milliseconds,
  the local limiter's store, the shared store, and the number of exchanges with the
  gateway begun so far (token acquisition, then the POST). The clock moves with the
  sleeps of the retry engine; the time an exchange takes is not modelled.
\<close>

record world =
  clock :: int
  store :: "string \<rightharpoonup> RateLimitEntry"
  redis :: redis_store
  exchanges :: nat

definition limiter_checkLimit :: "limiter \<Rightarrow> string \<Rightarrow> world \<Rightarrow> (exn + unit) \<times> world" where
  "limiter_checkLimit rl k w =
     (case rl of
        LocalLimiter options \<Rightarrow>
          (case checkLimit options k (clock w) (store w) of (r, st) \<Rightarrow> (r, w\<lparr>store := st\<rparr>))
      | RedisLimiter options \<Rightarrow>
          (case redis_checkLimit options k (clock w) (redis w) of (r, rs) \<Rightarrow> (r, w\<lparr>redis := rs\<rparr>)))"

definition world_sleep :: "int \<Rightarrow> world \<Rightarrow> world" where
  "world_sleep delay w = w\<lparr>clock := clock w + max delay 0\<rparr>"

text \<open>
  The gateway and the token provider are external. One exchange ends in one of these
  ways: \<open>getAccessToken\<close> raises; \<open>asyncio.TimeoutError\<close> is raised inside the
  \<open>try\<close> block; the POST raises another exception (with the flag: it has a
  \<open>statusCode\<close> attribute); or a response arrives, with its status and what
  \<open>response.json()\<close> gives (the body, or the exception it raises, which for a
  status in 200..299 is no timeout).
\<close>

datatype 'r exchange =
    TokenFailed exn
  | PostTimedOut
  | PostFailed exn bool
  | Responded int "exn + 'r"

text \<open>
  The \<open>try\<close> block of \<open>_request\<close> and its two \<open>except\<close> clauses. For a status
  outside 200..299 the \<open>raise parse_mpesa_api_error(...)\<close> stands inside the
  \<open>except\<close> clause of the inner \<open>try\<close>: it runs only when the body cannot be read,
  with an empty body, and the outer \<open>except Exception\<close> wraps it as a network error;
  when the body can be read the function returns it.
\<close>

definition network_error :: "string \<Rightarrow> exn \<Rightarrow> exn" where
  "network_error endpoint error =
     MpesaNetworkError (''Network error on '' @ endpoint @ '': '' @ exn_str error) True"

fun translate :: "string \<Rightarrow> 'r exchange \<Rightarrow> exn + 'r" where
  "translate endpoint (TokenFailed e) = Inl e"
| "translate endpoint PostTimedOut = Inl (MpesaTimeoutError (''Request timed out for '' @ endpoint))"
| "translate endpoint (PostFailed e has_statusCode) =
     (if has_statusCode then Inl e else Inl (network_error endpoint e))"
| "translate endpoint (Responded status body) =
     (if 200 \<le> status \<and> status < 300 then
        (case body of Inr b \<Rightarrow> Inr b | Inl e \<Rightarrow> Inl (network_error endpoint e))
      else
        (case body of
           Inr b \<Rightarrow> Inr b
         | Inl _ \<Rightarrow> Inl (network_error endpoint (parse_mpesa_api_error status empty_body))))"

text \<open>
  \<open>_request\<close>, the closure \<open>makeRequest\<close> hands to the retry engine: the limiter
  check when a limiter is configured and the key is a non-empty string, then the
  exchange. \<open>net\<close> tells how the exchange with a given number ends.
\<close>

definition request ::
  "limiter option \<Rightarrow> string option \<Rightarrow> string \<Rightarrow> (nat \<Rightarrow> 'r exchange) \<Rightarrow> world \<Rightarrow>
   (exn + 'r) \<times> world" where
  "request ratelimiter ratelimitKey endpoint net w =
     (case (case (ratelimiter, ratelimitKey) of
              (Some rl, Some k) \<Rightarrow>
                if k \<noteq> [] then limiter_checkLimit rl k w else (Inr (), w)
            | _ \<Rightarrow> (Inr (), w)) of
        (Inl e, w1) \<Rightarrow> (Inl e, w1)
      | (Inr _, w1) \<Rightarrow>
          (translate endpoint (net (exchanges w1)), w1\<lparr>exchanges := exchanges w1 + 1\<rparr>))"

definition makeRequest ::
  "limiter option \<Rightarrow> RetryOptions option \<Rightarrow> (nat \<Rightarrow> rat) \<Rightarrow> (nat \<Rightarrow> 'r exchange) \<Rightarrow>
   string \<Rightarrow> string option \<Rightarrow> world \<Rightarrow> ((exn + 'r) \<times> world) \<times> event list" where
  "makeRequest ratelimiter retryOptions rnd net endpoint ratelimitKey w =
     retryWithBackoff world_sleep rnd (request ratelimiter ratelimitKey endpoint net)
       retryOptions w"

text \<open>
  Two states in which the key \<open>stk:254700000000\<close> has used up a budget of one request
  in a window that ends at 60000 ms: one for the local limiter, one for the shared
  store, where the companion key \<open>...:ttl\<close> holds 0. A gateway that accepts every
  request, and the random sample 1/2 (no jitter).
\<close>

definition busy_local_world :: world where
  "busy_local_world =
     \<lparr> clock = 10,
       store = [''mpesa:stk:254700000000'' \<mapsto> \<lparr>count = 1, resetAt = 60000\<rparr>],
       redis = Map.empty, exchanges = 0 \<rparr>"

definition busy_shared_world :: world where
  "busy_shared_world =
     \<lparr> clock = 10, store = Map.empty,
       redis = [''mpesa:stk:254700000000'' \<mapsto> (RInt 1, Some 60000),
                ''mpesa:stk:254700000000:ttl'' \<mapsto> (RInt 0, None)],
       exchanges = 0 \<rparr>"

definition accepting_gateway :: "nat \<Rightarrow> unit exchange" where
  "accepting_gateway n = Responded 200 (Inr ())"

definition no_jitter :: "nat \<Rightarrow> rat" where
  "no_jitter attempt = 1 / 2"

section \<open>Callback reconciliation (core/mpesa/utils/callback.py)\<close>

text \<open>
  A callback payload is a decoded JSON document. A dictionary is an association list
  read with \<open>map_of\<close>. The declared payload types hold strings and integers
  (\<open>ResultCode: int\<close>, \<open>Value: str | int\<close>); numbers with a fraction are outside
  the model.
\<close>

datatype json =
    JNull
  | JBool bool
  | JInt int
  | JStr string
  | JList "json list"
  | JObj "(string \<times> json) list"

fun type_name :: "json \<Rightarrow> string" where
  "type_name JNull = ''NoneType''"
| "type_name (JBool _) = ''bool''"
| "type_name (JInt _) = ''int''"
| "type_name (JStr _) = ''str''"
| "type_name (JList _) = ''list''"
| "type_name (JObj _) = ''dict''"

text \<open>\<open>d[k]\<close> with a string key: \<open>KeyError\<close> on a dictionary without the key, \<open>TypeError\<close> on anything that is no dictionary.\<close>

fun subscript :: "json \<Rightarrow> string \<Rightarrow> exn + json" where
  "subscript (JObj kvs) k = (case map_of kvs k of None \<Rightarrow> Inl (KeyError k) | Some v \<Rightarrow> Inr v)"
| "subscript (JStr s) k = Inl (TypeError ''string indices must be integers'')"
| "subscript (JList xs) k = Inl (TypeError ''list indices must be integers or slices, not str'')"
| "subscript j k =
     Inl (TypeError ([CHR 0x27] @ type_name j @ [CHR 0x27] @ '' object is not subscriptable''))"

text \<open>\<open>d.get(k, default)\<close>: only a dictionary has the method.\<close>

fun py_get :: "json \<Rightarrow> string \<Rightarrow> json \<Rightarrow> exn + json" where
  "py_get (JObj kvs) k d = (case map_of kvs k of None \<Rightarrow> Inr d | Some v \<Rightarrow> Inr v)"
| "py_get j k d =
     Inl (AttributeError ([CHR 0x27] @ type_name j @ [CHR 0x27]
                           @ '' object has no attribute '' @ [CHR 0x27] @ ''get'' @ [CHR 0x27]))"

text \<open>
  \<open>for item in x\<close>: the elements of a list, the keys of a dictionary, the characters
  of a string; anything else is not iterable.
\<close>

fun py_iter :: "json \<Rightarrow> exn + json list" where
  "py_iter (JList xs) = Inr xs"
| "py_iter (JObj kvs) = Inr (map JStr (remdups (map fst kvs)))"
| "py_iter (JStr s) = Inr (map (\<lambda>c. JStr [c]) s)"
| "py_iter j =
     Inl (TypeError ([CHR 0x27] @ type_name j @ [CHR 0x27] @ '' object is not iterable''))"

text \<open>\<open>k in d\<close> for a dictionary \<open>d\<close> (the parser reaches it with a dictionary only).\<close>

fun has_key :: "json \<Rightarrow> string \<Rightarrow> bool" where
  "has_key (JObj kvs) k = (map_of kvs k \<noteq> None)"
| "has_key j k = False"

text \<open>\<open>x == 0\<close>: true of the integer 0 and of \<open>False\<close>.\<close>

fun eq_zero :: "json \<Rightarrow> bool" where
  "eq_zero (JInt n) = (n = 0)"
| "eq_zero (JBool b) = (\<not> b)"
| "eq_zero j = False"

text \<open>
  The built-in conversions \<open>float(value)\<close> and \<open>str(value)\<close> are parameters of the
  parser: \<open>py_float\<close> may raise, and its results are values of a type \<open>'f\<close> of floats;
  \<open>py_str\<close> gives the string.
\<close>

record 'f builtins =
  py_float :: "json \<Rightarrow> exn + 'f"
  py_str :: "json \<Rightarrow> string"

record 'f ParsedCallbackData =
  merchant_request_id :: json
  checkout_request_id :: json
  result_code :: json
  result_description :: json
  amount :: "'f option"
  mpesa_receipt_number :: "string option"
  transaction_date :: "string option"
  phone_number :: "string option"
  is_success :: bool
  error_message :: "string option"

definition SAFARICOM_IPS :: "string list" where
  "SAFARICOM_IPS =
     [''196.201.214.200'', ''196.201.214.206'', ''196.201.213.114'', ''196.201.214.207'',
      ''196.201.214.208'', ''196.201.213.44'', ''196.201.212.127'', ''196.201.212.138'',
      ''196.201.212.129'', ''196.201.212.136'', ''196.201.212.74'', ''196.201.212.69'']"

definition ERROR_MESSAGES :: "(int \<times> string) list" where
  "ERROR_MESSAGES =
     [(0, ''Success''),
      (1, ''Insufficient funds in M-Pesa account''),
      (17, ''User cancelled the transaction''),
      (26, ''System internal error''),
      (1001, ''Unable to lock subscriber, a transaction is already in process''),
      (1019, ''Transaction expired. No response from user''),
      (1032, ''Request cancelled by user''),
      (1037, ''Timeout in sending PIN request''),
      (2001, ''Wrong PIN entered''),
      (9999, ''Request cancelled by user'')]"

text \<open>
  \<open>get_error_message\<close>: \<open>ERROR_MESSAGES.get(result_code, f"...{result_code}")\<close>. An
  integer, or a boolean (which hashes and compares as 0 or 1), is looked up; a list or
  a dictionary is unhashable; any other key is absent from the table.
\<close>

definition get_error_message :: "'f builtins \<Rightarrow> json \<Rightarrow> exn + string" where
  "get_error_message py rc =
     (let fallback = ''Transaction failed with code: '' @ py_str py rc in
      case rc of
        JInt n \<Rightarrow> Inr (case map_of ERROR_MESSAGES n of None \<Rightarrow> fallback | Some m \<Rightarrow> m)
      | JBool b \<Rightarrow>
          Inr (case map_of ERROR_MESSAGES (if b then 1 else 0) of
                 None \<Rightarrow> fallback | Some m \<Rightarrow> m)
      | JList _ \<Rightarrow> Inl (TypeError ''unhashable type: list'')
      | JObj _ \<Rightarrow> Inl (TypeError ''unhashable type: dict'')
      | _ \<Rightarrow> Inr fallback)"

definition format_transaction_date :: "string \<Rightarrow> string" where
  "format_transaction_date date_str =
     take 4 date_str @ ''-'' @ take 2 (drop 4 date_str) @ ''-'' @ take 2 (drop 6 date_str)
       @ ''T'' @ take 2 (drop 8 date_str) @ '':'' @ take 2 (drop 10 date_str)
       @ '':'' @ take 2 (drop 12 date_str)"

text \<open>One round of the loop of \<open>_extract_metadata\<close>, and the loop.\<close>

definition extract_item ::
  "'f builtins \<Rightarrow> json \<Rightarrow> 'f ParsedCallbackData \<Rightarrow> exn + 'f ParsedCallbackData" where
  "extract_item py item parsed =
     (case py_get item ''Name'' JNull of
        Inl e \<Rightarrow> Inl e
      | Inr name \<Rightarrow>
          (case py_get item ''Value'' JNull of
             Inl e \<Rightarrow> Inl e
           | Inr v \<Rightarrow>
               if name = JStr ''Amount'' then
                 (case py_float py v of
                    Inl e \<Rightarrow> Inl e
                  | Inr a \<Rightarrow> Inr (parsed\<lparr>amount := Some a\<rparr>))
               else if name = JStr ''MpesaReceiptNumber'' then
                 Inr (parsed\<lparr>mpesa_receipt_number := Some (py_str py v)\<rparr>)
               else if name = JStr ''TransactionDate'' then
                 Inr (parsed\<lparr>transaction_date := Some (format_transaction_date (py_str py v))\<rparr>)
               else if name = JStr ''PhoneNumber'' then
                 Inr (parsed\<lparr>phone_number := Some (py_str py v)\<rparr>)
               else Inr parsed))"

fun extract_items ::
  "'f builtins \<Rightarrow> json list \<Rightarrow> 'f ParsedCallbackData \<Rightarrow> exn + 'f ParsedCallbackData" where
  "extract_items py [] parsed = Inr parsed"
| "extract_items py (item # items) parsed =
     (case extract_item py item parsed of
        Inl e \<Rightarrow> Inl e
      | Inr parsed' \<Rightarrow> extract_items py items parsed')"

definition extract_metadata ::
  "'f builtins \<Rightarrow> json \<Rightarrow> 'f ParsedCallbackData \<Rightarrow> exn + 'f ParsedCallbackData" where
  "extract_metadata py metadata parsed =
     (case py_get metadata ''Item'' (JList []) of
        Inl e \<Rightarrow> Inl e
      | Inr its \<Rightarrow>
          (case py_iter its of
             Inl e \<Rightarrow> Inl e
           | Inr items \<Rightarrow> extract_items py items parsed))"

text \<open>
  \<open>parse_callback\<close>. The subscripts run in the order the source evaluates them;
  the first that fails raises.
\<close>

definition parse_callback :: "'f builtins \<Rightarrow> json \<Rightarrow> exn + 'f ParsedCallbackData" where
  "parse_callback py callback =
     (case subscript callback ''Body'' of Inl e \<Rightarrow> Inl e | Inr body \<Rightarrow>
      case subscript body ''stkCallback'' of Inl e \<Rightarrow> Inl e | Inr stk_callback \<Rightarrow>
      case subscript stk_callback ''ResultCode'' of Inl e \<Rightarrow> Inl e | Inr rc \<Rightarrow>
      case subscript stk_callback ''MerchantRequestID'' of Inl e \<Rightarrow> Inl e | Inr mid \<Rightarrow>
      case subscript stk_callback ''CheckoutRequestID'' of Inl e \<Rightarrow> Inl e | Inr cid \<Rightarrow>
      case subscript stk_callback ''ResultDesc'' of Inl e \<Rightarrow> Inl e | Inr desc \<Rightarrow>
      case (if eq_zero rc then Inr None
            else (case get_error_message py rc of Inl e \<Rightarrow> Inl e | Inr m \<Rightarrow> Inr (Some m))) of
        Inl e \<Rightarrow> Inl e
      | Inr msg \<Rightarrow>
          (let parsed =
                 \<lparr> merchant_request_id = mid, checkout_request_id = cid, result_code = rc,
                   result_description = desc, amount = None, mpesa_receipt_number = None,
                   transaction_date = None, phone_number = None,
                   is_success = eq_zero rc, error_message = msg \<rparr>
           in if eq_zero rc \<and> has_key stk_callback ''CallbackMetadata'' then
                (case subscript stk_callback ''CallbackMetadata'' of
                   Inl e \<Rightarrow> Inl e
                 | Inr metadata \<Rightarrow> extract_metadata py metadata parsed)
              else Inr parsed))"

text \<open>
  The handler object. A registered handler is a function of the parsed callback that
  acts on the application's state \<open>'u\<close> and may raise; the duplicate predicate is
  given the checkout-request id and answers, or raises. The handlers of the other
  operations play no part in the STK path.
\<close>

record ('f, 'u) MpesaCallbackHandler =
  on_success :: "('f ParsedCallbackData \<Rightarrow> 'u \<Rightarrow> exn option \<times> 'u) option"
  on_failure :: "('f ParsedCallbackData \<Rightarrow> 'u \<Rightarrow> exn option \<times> 'u) option"
  on_callback :: "('f ParsedCallbackData \<Rightarrow> 'u \<Rightarrow> exn option \<times> 'u) option"
  validate_ip :: bool
  allowed_ips :: "string list"
  is_duplicate :: "(json \<Rightarrow> 'u \<Rightarrow> (exn + bool) \<times> 'u) option"

text \<open>
  \<open>__init__\<close>: \<open>self.allowed_ips = allowed_ips or self.SAFARICOM_IPS\<close>. An absent
  and an empty list are both false, so both select the built-in list.
\<close>

definition new_handler ::
  "('f ParsedCallbackData \<Rightarrow> 'u \<Rightarrow> exn option \<times> 'u) option \<Rightarrow>
   ('f ParsedCallbackData \<Rightarrow> 'u \<Rightarrow> exn option \<times> 'u) option \<Rightarrow>
   ('f ParsedCallbackData \<Rightarrow> 'u \<Rightarrow> exn option \<times> 'u) option \<Rightarrow>
   bool \<Rightarrow> string list option \<Rightarrow> (json \<Rightarrow> 'u \<Rightarrow> (exn + bool) \<times> 'u) option \<Rightarrow>
   ('f, 'u) MpesaCallbackHandler" where
  "new_handler succ fail cb v ips dup =
     \<lparr> on_success = succ, on_failure = fail, on_callback = cb, validate_ip = v,
       allowed_ips = (case ips of None \<Rightarrow> SAFARICOM_IPS | Some [] \<Rightarrow> SAFARICOM_IPS
                      | Some (x # xs) \<Rightarrow> x # xs),
       is_duplicate = dup \<rparr>"

definition validate_callback_ip :: "('f, 'u) MpesaCallbackHandler \<Rightarrow> string \<Rightarrow> bool" where
  "validate_callback_ip h ip_address =
     (if \<not> validate_ip h then True else ip_address \<in> set (allowed_ips h))"

text \<open>
  What handling a callback does besides returning: the log records, the question put
  to the duplicate predicate, and the registered handlers invoked, in order.
\<close>

datatype hook = OnCallback | OnSuccess | OnFailure

datatype cb_event = LogWarning string | LogInfo string | AskedDuplicate json | Invoked hook

fun invoked :: "cb_event list \<Rightarrow> hook list" where
  "invoked [] = []"
| "invoked (Invoked k # evs) = k # invoked evs"
| "invoked (_ # evs) = invoked evs"

text \<open>A handler slot: nothing happens when it is empty; otherwise the handler runs.\<close>

fun run_hook ::
  "('p \<Rightarrow> 'u \<Rightarrow> exn option \<times> 'u) option \<Rightarrow> hook \<Rightarrow> 'p \<Rightarrow> 'u \<Rightarrow> (exn option \<times> 'u) \<times> cb_event list" where
  "run_hook None k p u = ((None, u), [])"
| "run_hook (Some f) k p u = (f p u, [Invoked k])"

text \<open>
  The dispatch at the end of \<open>handle_callback\<close>: the generic handler, then the
  success handler for a successful result or the failure handler for a failed one.
\<close>

definition dispatch ::
  "('f, 'u) MpesaCallbackHandler \<Rightarrow> 'f ParsedCallbackData \<Rightarrow> 'u \<Rightarrow>
   ((exn + unit) \<times> 'u) \<times> cb_event list" where
  "dispatch h parsed u =
     (case run_hook (on_callback h) OnCallback parsed u of
        ((Some e, u1), evs) \<Rightarrow> ((Inl e, u1), evs)
      | ((None, u1), evs) \<Rightarrow>
          (case (if is_success parsed then run_hook (on_success h) OnSuccess parsed u1
                 else run_hook (on_failure h) OnFailure parsed u1) of
             ((Some e, u2), evs') \<Rightarrow> ((Inl e, u2), evs @ evs')
           | ((None, u2), evs') \<Rightarrow> ((Inr (), u2), evs @ evs')))"

text \<open>
  \<open>handle_callback\<close> after the trust check: parse, log, ask the duplicate predicate
  when one is configured, dispatch.
\<close>

definition process_callback ::
  "'f builtins \<Rightarrow> ('f, 'u) MpesaCallbackHandler \<Rightarrow> json \<Rightarrow> 'u \<Rightarrow>
   ((exn + unit) \<times> 'u) \<times> cb_event list" where
  "process_callback py h callback u =
     (case parse_callback py callback of
        Inl e \<Rightarrow> ((Inl e, u), [])
      | Inr parsed \<Rightarrow>
          (let info = LogInfo (''Processing STK callback - CheckoutRequestID: ''
                                @ py_str py (checkout_request_id parsed) @ '', ResultCode: ''
                                @ py_str py (result_code parsed))
           in case is_duplicate h of
                None \<Rightarrow>
                  (case dispatch h parsed u of (r, evs) \<Rightarrow> (r, info # evs))
              | Some dup \<Rightarrow>
                  (case dup (checkout_request_id parsed) u of
                     (Inl e, u1) \<Rightarrow>
                       ((Inl e, u1), [info, AskedDuplicate (checkout_request_id parsed)])
                   | (Inr True, u1) \<Rightarrow>
                       ((Inr (), u1),
                        [info, AskedDuplicate (checkout_request_id parsed),
                         LogWarning (''Duplicate callback detected - CheckoutRequestID: ''
                                      @ py_str py (checkout_request_id parsed))])
                   | (Inr False, u1) \<Rightarrow>
                       (case dispatch h parsed u1 of
                          (r, evs) \<Rightarrow>
                            (r, info # AskedDuplicate (checkout_request_id parsed) # evs)))))"

text \<open>
  \<open>handle_callback\<close>: the trust check runs when \<open>ip_address\<close> is a non-empty
  string; a source that fails it raises \<open>ValueError\<close>.
\<close>

definition handle_callback ::
  "'f builtins \<Rightarrow> ('f, 'u) MpesaCallbackHandler \<Rightarrow> json \<Rightarrow> string option \<Rightarrow> 'u \<Rightarrow>
   ((exn + unit) \<times> 'u) \<times> cb_event list" where
  "handle_callback py h callback ip_address u =
     (case ip_address of
        None \<Rightarrow> process_callback py h callback u
      | Some ip \<Rightarrow>
          if ip \<noteq> [] \<and> \<not> validate_callback_ip h ip then
            ((Inl (ValueError (''Invalid callback IP: '' @ ip)), u),
             [LogWarning (''Invalid callback IP: '' @ ip)])
          else process_callback py h callback u)"

record ack =
  ResultCode :: int
  ResultDesc :: string

definition create_callback_response :: "bool \<Rightarrow> string option \<Rightarrow> ack" where
  "create_callback_response success message =
     \<lparr> ResultCode = (if success then 0 else 1),
       ResultDesc = (if truthy_str message then or_default message []
                     else if success then ''Accepted'' else ''Rejected'') \<rparr>"

text \<open>
  \<open>MpesaClient.handleStkCallback\<close>: the \<open>try\<close> block returns the success
  acknowledgment when \<open>handle_callback\<close> returns; \<open>except Exception\<close> catches what it
  raises and returns the failure acknowledgment. The result type leaves room for an
  exception that escapes.
\<close>

definition handleStkCallback ::
  "'f builtins \<Rightarrow> ('f, 'u) MpesaCallbackHandler \<Rightarrow> json \<Rightarrow> string option \<Rightarrow> 'u \<Rightarrow>
   ((exn + ack) \<times> 'u) \<times> cb_event list" where
  "handleStkCallback py h callback ipAddress u =
     (case handle_callback py h callback ipAddress u of
        ((Inr _, u1), evs) \<Rightarrow> ((Inr (create_callback_response True None), u1), evs)
      | ((Inl _, u1), evs) \<Rightarrow>
          ((Inr (create_callback_response False (Some ''Internal Error'')), u1), evs))"

text \<open>
  Sample inputs for running the callback path: conversions that cover integers and
  decimal strings, an STK payload with a given result code and full metadata, handlers
  that count their invocations in the application state or raise, duplicate predicates
  that have seen every id or none, and two handler objects built with the default
  allow-list and IP validation on.
\<close>

definition sample_builtins :: "rat builtins" where
  "sample_builtins =
     \<lparr> py_float = (\<lambda>v. case v of
                      JInt n \<Rightarrow> Inr (of_int n)
                    | JBool b \<Rightarrow> Inr (if b then 1 else 0)
                    | JStr s \<Rightarrow> (case py_int s of
                                  Inr n \<Rightarrow> Inr (of_int n)
                                | Inl _ \<Rightarrow> Inl (ValueError (''could not convert string to float: '' @ s)))
                    | _ \<Rightarrow> Inl (TypeError ''float() argument must be a string or a real number'')),
       py_str = (\<lambda>v. case v of
                    JStr s \<Rightarrow> s
                  | JInt n \<Rightarrow> str_int n
                  | JBool b \<Rightarrow> (if b then ''True'' else ''False'')
                  | JNull \<Rightarrow> ''None''
                  | JList _ \<Rightarrow> ''[...]''
                  | JObj _ \<Rightarrow> ''{...}'') \<rparr>"

definition stk_payload :: "int \<Rightarrow> json" where
  "stk_payload rc =
     JObj [(''Body'', JObj [(''stkCallback'', JObj
       [(''MerchantRequestID'', JStr ''29115-34620561-1''),
        (''CheckoutRequestID'', JStr ''ws_CO_191220191020363925''),
        (''ResultCode'', JInt rc),
        (''ResultDesc'', JStr ''The service request is processed successfully.''),
        (''CallbackMetadata'', JObj [(''Item'', JList
           [JObj [(''Name'', JStr ''Amount''), (''Value'', JInt 1)],
            JObj [(''Name'', JStr ''MpesaReceiptNumber''), (''Value'', JStr ''NLJ7RT61SV'')],
            JObj [(''Name'', JStr ''TransactionDate''), (''Value'', JInt 20191219102115)],
            JObj [(''Name'', JStr ''PhoneNumber''), (''Value'', JInt 254708374149)]])])])])]"

definition counting_hook :: "'p \<Rightarrow> nat \<Rightarrow> exn option \<times> nat" where
  "counting_hook p n = (None, Suc n)"

definition failing_hook :: "'p \<Rightarrow> nat \<Rightarrow> exn option \<times> nat" where
  "failing_hook p n = (Some (OtherError ''database is down'' None None), n)"

definition always_seen :: "json \<Rightarrow> nat \<Rightarrow> (exn + bool) \<times> nat" where
  "always_seen cid n = (Inr True, n)"

definition never_seen :: "json \<Rightarrow> nat \<Rightarrow> (exn + bool) \<times> nat" where
  "never_seen cid n = (Inr False, n)"


definition strict_handler :: "(rat, nat) MpesaCallbackHandler" where
  "strict_handler =
     new_handler (Some counting_hook) (Some counting_hook) (Some counting_hook) True None
       (Some always_seen)"

definition fragile_handler :: "(rat, nat) MpesaCallbackHandler" where
  "fragile_handler =
     new_handler (Some failing_hook) (Some counting_hook) (Some counting_hook) True None
       (Some never_seen)"

section \<open>Theorems\<close>

subsection \<open>The error classifier\<close>

text \<open>
  C7. The claim: an error that carries a status code (and is neither a network nor a
  rate-limit error) is reported retryable exactly when the code is in the retryable
  set, by default 408, 429, 500, 502, 503, 504. The classifier reaches for the code
  with a subscript on the exception object, so for a timeout error (status 408, in the
  default set) it returns no verdict: it raises \<open>TypeError\<close>.
\<close>

theorem isRetryableError_status_code_raises:
  "isRetryableError (MpesaTimeoutError ''Request timed out for /mpesa/stkpush/v1/processrequest'')
       (retryableStatusCodes DEFAULT_RETRY_OPTIONS)
     = Inl (TypeError ([CHR 0x27] @ ''MpesaTimeoutError'' @ [CHR 0x27]
                        @ '' object is not subscriptable''))"
  by (simp add: isRetryableError_def subscript_exn_def)

subsection \<open>The local rate limiter\<close>

lemma checkLimit_fresh:
  "st (full_key opts k) = None \<Longrightarrow>
   checkLimit opts k now st =
     (Inr (), st(full_key opts k \<mapsto> \<lparr>count = 1, resetAt = now + windowMs opts\<rparr>))"
  by (simp add: checkLimit_def Let_def)

lemma checkLimit_live:
  "st (full_key opts k) = Some e \<Longrightarrow>
   checkLimit opts k now st =
     (if resetAt e \<le> now then
        (Inr (), st(full_key opts k \<mapsto> \<lparr>count = 1, resetAt = now + windowMs opts\<rparr>))
      else if maxRequests opts \<le> count e then
        (Inl (MpesaRateLimitError (limit_message ((resetAt e - now + 999) div 1000))
            (Some ((resetAt e - now + 999) div 1000))
            [(''limit'', maxRequests opts), (''windowMs'', windowMs opts),
             (''resetAt'', resetAt e)]), st)
      else (Inr (), st(full_key opts k \<mapsto> e\<lparr>count := count e + 1\<rparr>)))"
  by (simp add: checkLimit_def Let_def)

lemma ceil_div_1000: "(d + 999) div 1000 = \<lceil>(of_int d :: rat) / 1000\<rceil>" for d :: int
proof -
  have "\<lceil>(of_int d :: rat) / of_int 1000\<rceil> = - ((- d) div 1000)"
    by (rule ceiling_divide_eq_div)
  moreover have "- ((- d) div 1000) = (d + 999) div 1000" by linarith
  ultimately show ?thesis by simp
qed

lemma checkLimit_seq_live:
  "st (full_key opts k) = Some e \<Longrightarrow> (\<And>t. t \<in> set ts \<Longrightarrow> t < resetAt e) \<Longrightarrow>
   map admitted (checkLimit_seq opts k ts st)
     = map (\<lambda>i. count e + int i < maxRequests opts) [0 ..< length ts]"
proof (induction ts arbitrary: st e)
  case Nil
  then show ?case by simp
next
  case (Cons t ts)
  have live: "\<not> resetAt e \<le> t" using Cons.prems(2)[of t] by simp
  have shift: "map f [0 ..< Suc n] = f 0 # map (\<lambda>i. f (Suc i)) [0 ..< n]" for f :: "nat \<Rightarrow> bool" and n
    by (simp add: upt_conv_Cons map_Suc_upt[symmetric] del: upt_Suc)
  show ?case
  proof (cases "maxRequests opts \<le> count e")
    case True
    have step: "checkLimit opts k t st =
        (Inl (MpesaRateLimitError (limit_message ((resetAt e - t + 999) div 1000))
            (Some ((resetAt e - t + 999) div 1000))
            [(''limit'', maxRequests opts), (''windowMs'', windowMs opts),
             (''resetAt'', resetAt e)]), st)"
      using checkLimit_live[of st opts k e t] Cons.prems(1) live True by simp
    have ih: "map admitted (checkLimit_seq opts k ts st)
        = map (\<lambda>i. count e + int i < maxRequests opts) [0 ..< length ts]"
    proof (rule Cons.IH[of st e])
      show "st (full_key opts k) = Some e" by (rule Cons.prems(1))
    next
      fix t' assume "t' \<in> set ts"
      then show "t' < resetAt e" using Cons.prems(2)[of t'] by simp
    qed
    have "map (\<lambda>i. count e + int i < maxRequests opts) [0 ..< length ts]
        = map (\<lambda>i. count e + int (Suc i) < maxRequests opts) [0 ..< length ts]"
      using True by auto
    then show ?thesis using True by (simp add: step ih shift del: upt_Suc)
  next
    case False
    let ?e' = "e\<lparr>count := count e + 1\<rparr>"
    let ?st' = "st(full_key opts k \<mapsto> ?e')"
    have step: "checkLimit opts k t st = (Inr (), ?st')"
      using checkLimit_live[of st opts k e t] Cons.prems(1) live False by simp
    have ih: "map admitted (checkLimit_seq opts k ts ?st')
        = map (\<lambda>i. count ?e' + int i < maxRequests opts) [0 ..< length ts]"
    proof (rule Cons.IH[of ?st' ?e'])
      show "?st' (full_key opts k) = Some ?e'" by simp
    next
      fix t' assume "t' \<in> set ts"
      then show "t' < resetAt ?e'" using Cons.prems(2)[of t'] by simp
    qed
    have "map (\<lambda>i. count ?e' + int i < maxRequests opts) [0 ..< length ts]
        = map (\<lambda>i. count e + int (Suc i) < maxRequests opts) [0 ..< length ts]"
      by (simp add: add.commute add.left_commute)
    then show ?thesis using False by (simp add: step ih shift del: upt_Suc)
  qed
qed


text \<open>
  C3, as amended. For the local limiter with \<open>maxRequests = N\<close>, \<open>N \<ge> 1\<close>, and
  window \<open>windowMs\<close>: (1) on first use of a key, or once \<open>now \<ge> resetAt\<close>,
  \<open>checkLimit\<close> stores \<open>count = 1\<close>, \<open>resetAt = now + windowMs\<close> and admits;
  (2) in a run of calls that starts a window and stays inside it, the call at position
  \<open>i\<close> (counted from 0) is admitted exactly when \<open>i < N\<close>, so the \<open>N\<close>-th call
  is admitted and the \<open>(N+1)\<close>-th is rejected; (3) a rejection raises the rate-limit
  error with \<open>retry_after = ceil((resetAt - now) / 1000)\<close> and the details \<open>limit\<close>,
  \<open>windowMs\<close> and \<open>resetAt\<close>, and leaves the store as it was.
\<close>

theorem checkLimit_fixed_window:
  assumes "1 \<le> maxRequests opts"
  shows
    "((st (full_key opts k) = None \<or> (\<exists>e. st (full_key opts k) = Some e \<and> resetAt e \<le> now)) \<longrightarrow>
        checkLimit opts k now st =
          (Inr (), st(full_key opts k \<mapsto> \<lparr>count = 1, resetAt = now + windowMs opts\<rparr>)))
     \<and> ((st (full_key opts k) = None \<or> (\<exists>e. st (full_key opts k) = Some e \<and> resetAt e \<le> now))
          \<and> (\<forall>t \<in> set ts. t < now + windowMs opts) \<longrightarrow>
        map admitted (checkLimit_seq opts k (now # ts) st)
          = map (\<lambda>i. int i < maxRequests opts) [0 ..< Suc (length ts)])
     \<and> (st (full_key opts k) = Some e \<and> now < resetAt e \<and> maxRequests opts \<le> count e \<longrightarrow>
        checkLimit opts k now st =
          (Inl (MpesaRateLimitError
                  (limit_message \<lceil>(of_int (resetAt e - now) :: rat) / 1000\<rceil>)
                  (Some \<lceil>(of_int (resetAt e - now) :: rat) / 1000\<rceil>)
                  [(''limit'', maxRequests opts), (''windowMs'', windowMs opts),
                   (''resetAt'', resetAt e)]), st))"
proof (intro conjI impI)
  let ?fresh = "\<lparr>count = 1, resetAt = now + windowMs opts\<rparr>"
  let ?st' = "st(full_key opts k \<mapsto> ?fresh)"
  have reset: "checkLimit opts k now st = (Inr (), ?st')"
    if "st (full_key opts k) = None \<or> (\<exists>e. st (full_key opts k) = Some e \<and> resetAt e \<le> now)"
    using that checkLimit_fresh[of st opts k now] checkLimit_live[of st opts k _ now] by auto
  show "checkLimit opts k now st = (Inr (), ?st')"
    if "st (full_key opts k) = None \<or> (\<exists>e. st (full_key opts k) = Some e \<and> resetAt e \<le> now)"
    using that by (rule reset)
  show "map admitted (checkLimit_seq opts k (now # ts) st)
          = map (\<lambda>i. int i < maxRequests opts) [0 ..< Suc (length ts)]"
    if h: "(st (full_key opts k) = None \<or> (\<exists>e. st (full_key opts k) = Some e \<and> resetAt e \<le> now))
          \<and> (\<forall>t \<in> set ts. t < now + windowMs opts)"
  proof -
    have first: "checkLimit opts k now st = (Inr (), ?st')" using h reset by blast
    have rest: "map admitted (checkLimit_seq opts k ts ?st')
        = map (\<lambda>i. count ?fresh + int i < maxRequests opts) [0 ..< length ts]"
    proof (rule checkLimit_seq_live[of ?st' opts k ?fresh ts])
      show "?st' (full_key opts k) = Some ?fresh" by simp
    next
      fix t assume "t \<in> set ts"
      then show "t < resetAt ?fresh" using h by simp
    qed
    have shift: "map f [0 ..< Suc n] = f 0 # map (\<lambda>i. f (Suc i)) [0 ..< n]"
      for f :: "nat \<Rightarrow> bool" and n
      by (simp add: upt_conv_Cons map_Suc_upt[symmetric] del: upt_Suc)
    have "map (\<lambda>i. count ?fresh + int i < maxRequests opts) [0 ..< length ts]
        = map (\<lambda>i. int (Suc i) < maxRequests opts) [0 ..< length ts]"
      by (simp add: add.commute)
    then show ?thesis using assms by (simp add: first rest shift del: upt_Suc)
  qed
  show "checkLimit opts k now st =
          (Inl (MpesaRateLimitError
                  (limit_message \<lceil>(of_int (resetAt e - now) :: rat) / 1000\<rceil>)
                  (Some \<lceil>(of_int (resetAt e - now) :: rat) / 1000\<rceil>)
                  [(''limit'', maxRequests opts), (''windowMs'', windowMs opts),
                   (''resetAt'', resetAt e)]), st)"
    if "st (full_key opts k) = Some e \<and> now < resetAt e \<and> maxRequests opts \<le> count e"
    using that checkLimit_live[of st opts k e now] ceil_div_1000[of "resetAt e - now"]
    by simp
qed

theorem checkLimit_fixed_window_witness:
  "(1::int) \<le> maxRequests (limiter_options 2 60000 None)
   \<and> map admitted (checkLimit_seq (limiter_options 2 60000 None) ''k'' [0, 10, 20] Map.empty)
       = [True, True, False]
   \<and> fst (checkLimit (limiter_options 2 60000 None) ''k'' 20
            [''mpesa:k'' \<mapsto> \<lparr>count = 2, resetAt = 60000\<rparr>])
       = Inl (MpesaRateLimitError ''Rate limit exceeded. Try again in 60 seconds.'' (Some 60)
               [(''limit'', 2), (''windowMs'', 60000), (''resetAt'', 60000)])"
proof -
  let ?o = "limiter_options 2 60000 None"
  let ?e = "\<lparr>count = 2, resetAt = 60000\<rparr>"
  let ?st = "[''mpesa:k'' \<mapsto> ?e]"
  have n: "(1::int) \<le> maxRequests ?o" by (simp add: limiter_options_def)
  have fk: "full_key ?o ''k'' = ''mpesa:k''" by (simp add: full_key_def limiter_options_def)
  have c: "\<lceil>(of_int (resetAt ?e - 20) :: rat) / 1000\<rceil> = 60" by (simp add: ceiling_eq_iff)
  have m: "limit_message 60 = ''Rate limit exceeded. Try again in 60 seconds.''"
    by code_simp
  note t = checkLimit_fixed_window[OF n]
  have w: "\<forall>t \<in> set [10, 20]. t < 0 + windowMs ?o" by (simp add: limiter_options_def)
  have "map admitted (checkLimit_seq ?o ''k'' (0 # [10, 20]) Map.empty)
          = map (\<lambda>i. int i < maxRequests ?o) [0 ..< Suc (length [10, 20 :: int])]"
    using t[of Map.empty "''k''" 0 "[10, 20]"] w by blast
  moreover have "map (\<lambda>i. int i < maxRequests ?o) [0 ..< Suc (length [10, 20 :: int])]
          = [True, True, False]"
    by (simp add: limiter_options_def upt_conv_Cons)
  ultimately have a: "map admitted (checkLimit_seq ?o ''k'' [0, 10, 20] Map.empty)
          = [True, True, False]"
    by (simp only:)
  have pre: "?st (full_key ?o ''k'') = Some ?e \<and> 20 < resetAt ?e \<and> maxRequests ?o \<le> count ?e"
    by (simp add: full_key_def limiter_options_def)
  have "checkLimit ?o ''k'' 20 ?st =
          (Inl (MpesaRateLimitError
                  (limit_message \<lceil>(of_int (resetAt ?e - 20) :: rat) / 1000\<rceil>)
                  (Some \<lceil>(of_int (resetAt ?e - 20) :: rat) / 1000\<rceil>)
                  [(''limit'', maxRequests ?o), (''windowMs'', windowMs ?o),
                   (''resetAt'', resetAt ?e)]), ?st)"
    using t[of ?st "''k''" 20 "[]" ?e] pre by blast
  then have b: "fst (checkLimit ?o ''k'' 20 ?st)
       = Inl (MpesaRateLimitError ''Rate limit exceeded. Try again in 60 seconds.'' (Some 60)
               [(''limit'', 2), (''windowMs'', 60000), (''resetAt'', 60000)])"
    by (simp only: c m fst_conv) (simp add: limiter_options_def)
  show ?thesis using n a b by blast
qed

text \<open>
  C3 as stated fails at \<open>N = 0\<close>: the call that opens a window is admitted whatever
  the budget, so with \<open>maxRequests = 0\<close> the \<open>(N+1)\<close>-th call, the first, is admitted.
\<close>

theorem checkLimit_zero_budget_admits_first_call:
  "map admitted (checkLimit_seq (limiter_options 0 60000 None) ''k'' [0] Map.empty) = [True]"
  by (simp add: checkLimit_def limiter_options_def Let_def)

subsection \<open>The two rate limiters compared\<close>












lemma limiters_disagree_on_zero_budget:
  "map admitted (checkLimit_seq (limiter_options 0 60000 None) ''k'' [0] Map.empty) = [True]
   \<and> map admitted (redis_checkLimit_seq (limiter_options 0 60000 None) ''k'' [0] Map.empty)
     = [False]"
  by code_simp

subsection \<open>The retry engine\<close>

text \<open>
  What holds of \<open>retryWithBackoff\<close> for every operation and policy: it calls the
  operation at most \<open>maxRetries + 1\<close> times; an error the classifier reports not
  retryable, and an error the classifier gives any verdict on in the attempt with index
  \<open>maxRetries\<close>, propagates unchanged with no further attempt; with
  \<open>maxRetries = 0\<close> the run is exactly one attempt.
\<close>

lemma retry_loop_attempts_le:
  "attempts (snd (retry_loop sleep rnd fn opts as le0 s)) \<le> length as"
proof (induction as arbitrary: le0 s)
  case Nil
  then show ?case by (simp add: attempts_def split: option.splits)
next
  case (Cons a as)
  have rec: "attempts (snd (retry_loop sleep rnd fn opts as l' s')) \<le> length as" for l' s'
    using Cons.IH by simp
  show ?case
    using rec
    by (auto simp: attempts_def split_beta Let_def split: prod.splits sum.splits option.splits)
qed

lemma retryWithBackoff_attempts_le:
  "attempts (snd (retryWithBackoff sleep rnd fn options s))
     \<le> nat (maxRetries (merge_options options) + 1)"
  using retry_loop_attempts_le[of sleep rnd fn "merge_options options"
          "[0 ..< nat (maxRetries (merge_options options) + 1)]" None s]
  by (simp add: retryWithBackoff_def Let_def)

lemma retry_loop_not_retryable:
  assumes "fn s = (Inl e, s1)" and "isRetryableError e (retryableStatusCodes opts) = Inr False"
  shows "retry_loop sleep rnd fn opts (a # as) le0 s = ((Inl e, s1), [Attempt a])"
  using assms by simp

lemma retry_loop_last_attempt:
  assumes "fn s = (Inl e, s1)" and "isRetryableError e (retryableStatusCodes opts) = Inr b"
    and "int a = maxRetries opts"
  shows "retry_loop sleep rnd fn opts (a # as) le0 s = ((Inl e, s1), [Attempt a])"
  using assms by simp

lemma retryWithBackoff_no_retries:
  assumes "maxRetries (merge_options options) = 0"
  shows "snd (retryWithBackoff sleep rnd fn options s) = [Attempt 0]"
  using assms
  by (auto simp: retryWithBackoff_def Let_def split: prod.splits sum.splits)

text \<open>
  C2. The claim adds that in the attempt with index \<open>maxRetries\<close> the original error
  propagates unchanged. The classifier is consulted before the attempt index is
  compared, and for an error with a status code it raises (see C7): with
  \<open>maxRetries = 0\<close> and an operation that times out, the caller gets a
  \<open>TypeError\<close> in place of the timeout error. One attempt is made, as the claim says.
\<close>

theorem retryWithBackoff_timeout_on_last_attempt:
  "retryWithBackoff (\<lambda>delay s. s) (\<lambda>attempt. 0)
       (\<lambda>s :: unit. (Inl (MpesaTimeoutError ''Request timed out for /mpesa/stkpush/v1/processrequest'') :: exn + unit, s))
       (Some (no_options\<lparr>maxRetries_opt := Some 0\<rparr>)) ()
     = ((Inl (TypeError ([CHR 0x27] @ ''MpesaTimeoutError'' @ [CHR 0x27]
                          @ '' object is not subscriptable'')), ()),
        [Attempt 0])"
  by code_simp

subsection \<open>Rate-limit rejections inside makeRequest\<close>

lemma limiter_checkLimit_exchanges:
  "exchanges (snd (limiter_checkLimit rl k w)) = exchanges w"
  by (cases rl) (simp_all add: limiter_checkLimit_def split_beta)

lemma isRetryableError_rate_limit:
  "is_MpesaRateLimitError e \<Longrightarrow> isRetryableError e codes = Inr True"
  by (cases e) (simp_all add: isRetryableError_def)

lemma calculateDelay_no_hint:
  "\<not> truthy_int (retry_after_attr e) \<Longrightarrow> \<exists>d. calculateDelay a opts e r = Inr d"
  by (simp add: calculateDelay_def Let_def)

text \<open>
  C1, as amended. When \<open>checkLimit\<close> rejects inside \<open>makeRequest\<close> with a
  rate-limit error, the attempt ends there: \<open>_request\<close> raises the rejection and no
  exchange with the gateway is begun. The retry engine classifies the rejection as
  retryable. In the attempt with index \<open>maxRetries\<close> it reaches the caller unchanged,
  with no sleep. In an earlier attempt, when the rejection carries no positive
  retry-after hint and \<open>onRetry\<close> returns, the engine sleeps for the computed backoff
  and runs the operation, limiter check included, again.
\<close>

theorem checkLimit_rejection_in_makeRequest:
  assumes rej: "limiter_checkLimit rl k w = (Inl e, w')" and key: "k \<noteq> []"
    and rle: "is_MpesaRateLimitError e"
  shows
    "request (Some rl) (Some k) endpoint net w = (Inl e, w') \<and> exchanges w' = exchanges w
     \<and> isRetryableError e (retryableStatusCodes opts) = Inr True
     \<and> (int a = maxRetries opts \<longrightarrow>
          retry_loop world_sleep rnd (request (Some rl) (Some k) endpoint net) opts (a # as) le0 w
            = ((Inl e, w'), [Attempt a]))
     \<and> (int a \<noteq> maxRetries opts \<and> \<not> truthy_int (retry_after_attr e)
          \<and> onRetry opts e (int a + 1) = None \<longrightarrow>
          (\<exists>d. calculateDelay a opts e (rnd a) = Inr d
             \<and> retry_loop world_sleep rnd (request (Some rl) (Some k) endpoint net) opts (a # as) le0 w
                 = (fst (retry_loop world_sleep rnd (request (Some rl) (Some k) endpoint net) opts
                            as (Some e) (world_sleep d w')),
                    Attempt a # Retry e (int a + 1) # Sleep d
                      # snd (retry_loop world_sleep rnd (request (Some rl) (Some k) endpoint net)
                               opts as (Some e) (world_sleep d w')))))"
proof -
  let ?fn = "request (Some rl) (Some k) endpoint net :: world \<Rightarrow> (exn + 'a) \<times> world"
  have req: "?fn w = (Inl e, w')"
    using rej key by (simp add: request_def)
  have ex: "exchanges w' = exchanges w"
    using limiter_checkLimit_exchanges[of rl k w] rej by simp
  have cls: "isRetryableError e (retryableStatusCodes opts) = Inr True"
    using rle by (rule isRetryableError_rate_limit)
  have final: "retry_loop world_sleep rnd ?fn opts (a # as) le0 w = ((Inl e, w'), [Attempt a])"
    if "int a = maxRetries opts"
    using that req cls by simp
  have again: "\<exists>d. calculateDelay a opts e (rnd a) = Inr d
      \<and> retry_loop world_sleep rnd ?fn opts (a # as) le0 w
          = (fst (retry_loop world_sleep rnd ?fn opts as (Some e) (world_sleep d w')),
             Attempt a # Retry e (int a + 1) # Sleep d
               # snd (retry_loop world_sleep rnd ?fn opts as (Some e) (world_sleep d w')))"
    if h: "int a \<noteq> maxRetries opts \<and> \<not> truthy_int (retry_after_attr e)
          \<and> onRetry opts e (int a + 1) = None"
  proof -
    from h obtain d where d: "calculateDelay a opts e (rnd a) = Inr d"
      using calculateDelay_no_hint[of e a opts "rnd a"] by blast
    show ?thesis
      using h req cls d by (intro exI[of _ d]) (simp add: split_beta)
  qed
  show ?thesis using req ex cls final again by blast
qed


theorem checkLimit_rejection_in_makeRequest_witness:
  "fst (fst (makeRequest (Some (LocalLimiter (limiter_options 1 60000 None)))
               (Some (no_options\<lparr>maxRetries_opt := Some 0\<rparr>)) no_jitter accepting_gateway
               ''/mpesa/stkpush/v1/processrequest'' (Some ''stk:254700000000'') busy_local_world))
     = Inl (MpesaRateLimitError ''Rate limit exceeded. Try again in 60 seconds.'' (Some 60)
             [(''limit'', 1), (''windowMs'', 60000), (''resetAt'', 60000)])
   \<and> snd (makeRequest (Some (LocalLimiter (limiter_options 1 60000 None)))
               (Some (no_options\<lparr>maxRetries_opt := Some 0\<rparr>)) no_jitter accepting_gateway
               ''/mpesa/stkpush/v1/processrequest'' (Some ''stk:254700000000'') busy_local_world)
     = [Attempt 0]
   \<and> take 3 (snd (makeRequest (Some (RedisLimiter (limiter_options 1 60000 None))) None
                 no_jitter accepting_gateway ''/mpesa/stkpush/v1/processrequest''
                 (Some ''stk:254700000000'') busy_shared_world))
     = [Attempt 0,
        Retry (MpesaRateLimitError ''Rate limit exceeded. Try again in 0 seconds.'' (Some 0)
                 [(''limit'', 1), (''windowMs'', 60000)]) 1,
        Sleep 1000]"
proof -
  let ?L = "LocalLimiter (limiter_options 1 60000 None)"
  let ?R = "RedisLimiter (limiter_options 1 60000 None)"
  let ?k = "''stk:254700000000''"
  let ?ep = "''/mpesa/stkpush/v1/processrequest''"
  let ?eL = "MpesaRateLimitError ''Rate limit exceeded. Try again in 60 seconds.'' (Some 60)
             [(''limit'', 1), (''windowMs'', 60000), (''resetAt'', 60000)]"
  let ?eR = "MpesaRateLimitError ''Rate limit exceeded. Try again in 0 seconds.'' (Some 0)
                 [(''limit'', 1), (''windowMs'', 60000)]"
  let ?o0 = "merge_options (Some (no_options\<lparr>maxRetries_opt := Some 0\<rparr>))"
  let ?od = "merge_options None"
  let ?wL = "snd (limiter_checkLimit ?L ?k busy_local_world)"
  let ?wR = "snd (limiter_checkLimit ?R ?k busy_shared_world)"
  have kne: "?k \<noteq> []" by simp
  \<comment> \<open>the local limiter, no retries allowed\<close>
  have "fst (limiter_checkLimit ?L ?k busy_local_world) = Inl ?eL" by code_simp
  then have rejL: "limiter_checkLimit ?L ?k busy_local_world = (Inl ?eL, ?wL)"
    by (simp add: prod_eq_iff)
  have m0: "maxRetries ?o0 = 0" by code_simp
  have runL: "retry_loop world_sleep no_jitter (request (Some ?L) (Some ?k) ?ep accepting_gateway)
                ?o0 (0 # []) None busy_local_world = ((Inl ?eL, ?wL), [Attempt 0])"
    using checkLimit_rejection_in_makeRequest[OF rejL kne, of ?ep accepting_gateway ?o0 0
            no_jitter "[]" None] m0
    by simp
  have mkL: "makeRequest (Some ?L) (Some (no_options\<lparr>maxRetries_opt := Some 0\<rparr>)) no_jitter
               accepting_gateway ?ep (Some ?k) busy_local_world = ((Inl ?eL, ?wL), [Attempt 0])"
    using runL m0 by (simp add: makeRequest_def retryWithBackoff_def Let_def)
  \<comment> \<open>the shared-store limiter, default policy, hint 0\<close>
  have "fst (limiter_checkLimit ?R ?k busy_shared_world) = Inl ?eR" by code_simp
  then have rejR: "limiter_checkLimit ?R ?k busy_shared_world = (Inl ?eR, ?wR)"
    by (simp add: prod_eq_iff)
  have m3: "maxRetries ?od = 3" by code_simp
  have quiet: "onRetry ?od ?eR (int 0 + 1) = None" by code_simp
  have isrl: "is_MpesaRateLimitError ?eR" by simp
  have early: "int 0 \<noteq> maxRetries ?od" by (simp add: m3)
  have nohint: "\<not> truthy_int (retry_after_attr ?eR)" by simp
  have delay: "calculateDelay 0 ?od ?eR (no_jitter 0) = Inr 1000" by code_simp
  have "\<exists>d. calculateDelay 0 ?od ?eR (no_jitter 0) = Inr d
      \<and> retry_loop world_sleep no_jitter (request (Some ?R) (Some ?k) ?ep accepting_gateway)
            ?od (0 # [1, 2, 3]) None busy_shared_world
          = (fst (retry_loop world_sleep no_jitter
                    (request (Some ?R) (Some ?k) ?ep accepting_gateway) ?od [1, 2, 3]
                    (Some ?eR) (world_sleep d ?wR)),
             Attempt 0 # Retry ?eR (int 0 + 1) # Sleep d
               # snd (retry_loop world_sleep no_jitter
                    (request (Some ?R) (Some ?k) ?ep accepting_gateway) ?od [1, 2, 3]
                    (Some ?eR) (world_sleep d ?wR)))"
    using checkLimit_rejection_in_makeRequest[OF rejR kne isrl, of ?ep accepting_gateway ?od 0
            no_jitter "[1, 2, 3]" None] early nohint quiet
    by blast
  then have runR: "take 3 (snd (retry_loop world_sleep no_jitter
            (request (Some ?R) (Some ?k) ?ep accepting_gateway) ?od (0 # [1, 2, 3]) None
            busy_shared_world))
          = [Attempt 0, Retry ?eR 1, Sleep 1000]"
    using delay by auto
  have upt4: "[0 ..< nat (3 + 1)] = 0 # [1, 2, 3]" by code_simp
  have mkR: "take 3 (snd (makeRequest (Some ?R) None no_jitter accepting_gateway ?ep (Some ?k)
                busy_shared_world)) = [Attempt 0, Retry ?eR 1, Sleep 1000]"
    using runR by (simp only: makeRequest_def retryWithBackoff_def Let_def m3 upt4)
  show ?thesis using mkL mkR by simp
qed

text \<open>
  C1 as stated fails: the rejection is retried. With the shared-store limiter over
  budget and the hint read as 0, the default policy invokes the operation four times
  and sleeps three times, and never reaches the gateway.
\<close>

theorem checkLimit_rejection_is_retried:
  "attempts (snd (makeRequest (Some (RedisLimiter (limiter_options 1 60000 None))) None
                 no_jitter accepting_gateway ''/mpesa/stkpush/v1/processrequest''
                 (Some ''stk:254700000000'') busy_shared_world)) = 4
   \<and> sleeps (snd (makeRequest (Some (RedisLimiter (limiter_options 1 60000 None))) None
                 no_jitter accepting_gateway ''/mpesa/stkpush/v1/processrequest''
                 (Some ''stk:254700000000'') busy_shared_world)) = 3
   \<and> exchanges (snd (fst (makeRequest (Some (RedisLimiter (limiter_options 1 60000 None))) None
                 no_jitter accepting_gateway ''/mpesa/stkpush/v1/processrequest''
                 (Some ''stk:254700000000'') busy_shared_world))) = 0"
  by code_simp

text \<open>
  With a positive hint, as the local limiter always gives, the engine goes on to compute
  the delay from the hint by a subscript on the exception, which raises: under the
  default policy the caller gets a \<open>TypeError\<close> in place of the rejection.
\<close>

lemma checkLimit_rejection_lost_in_delay:
  "fst (fst (makeRequest (Some (LocalLimiter (limiter_options 1 60000 None))) None
               no_jitter accepting_gateway ''/mpesa/stkpush/v1/processrequest''
               (Some ''stk:254700000000'') busy_local_world))
     = Inl (TypeError ([CHR 0x27] @ ''MpesaRateLimitError'' @ [CHR 0x27]
                        @ '' object is not subscriptable''))
   \<and> snd (makeRequest (Some (LocalLimiter (limiter_options 1 60000 None))) None
               no_jitter accepting_gateway ''/mpesa/stkpush/v1/processrequest''
               (Some ''stk:254700000000'') busy_local_world) = [Attempt 0]"
  by code_simp

subsection \<open>Callback reconciliation: duplicates\<close>

lemma invoked_append: "invoked (xs @ ys) = invoked xs @ invoked ys"
  by (induction xs rule: invoked.induct) simp_all


lemma handleStkCallback_result:
  assumes "fst (handle_callback py h callback ip u) = (r, u1)"
  shows "fst (handleStkCallback py h callback ip u)
           = ((case r of
                 Inr _ \<Rightarrow> Inr \<lparr>ResultCode = 0, ResultDesc = ''Accepted''\<rparr>
               | Inl _ \<Rightarrow> Inr \<lparr>ResultCode = 1, ResultDesc = ''Internal Error''\<rparr>), u1)"
proof -
  obtain evs where run: "handle_callback py h callback ip u = ((r, u1), evs)"
    using assms by (metis prod.collapse)
  show ?thesis
    by (cases r) (simp_all add: handleStkCallback_def run create_callback_response_def)
qed





subsection \<open>Callback reconciliation: acknowledgment\<close>

text \<open>
  An error in any stage makes \<open>handle_callback\<close> raise: a payload that does not
  parse, a duplicate predicate that raises, a handler that raises.
\<close>

lemma process_callback_parse_error:
  "parse_callback py callback = Inl e \<Longrightarrow>
   process_callback py h callback u = ((Inl e, u), [])"
  by (simp add: process_callback_def)

lemma process_callback_predicate_error:
  "parse_callback py callback = Inr parsed \<Longrightarrow> is_duplicate h = Some dup \<Longrightarrow>
   dup (checkout_request_id parsed) u = (Inl e, u1) \<Longrightarrow>
   fst (process_callback py h callback u) = (Inl e, u1)"
  by (simp add: process_callback_def Let_def)

lemma dispatch_handler_error:
  "on_callback h = Some f \<Longrightarrow> f parsed u = (Some e, u1) \<Longrightarrow>
   fst (dispatch h parsed u) = (Inl e, u1)"
  by (simp add: dispatch_def)

text \<open>
  C6. Whatever the payload, the handlers and the source address, \<open>handleStkCallback\<close>
  returns an acknowledgment and raises nothing: \<open>ResultCode 0\<close> with
  \<open>ResultDesc "Accepted"\<close> when \<open>handle_callback\<close> returned, \<open>ResultCode 1\<close> with
  \<open>ResultDesc "Internal Error"\<close> when it raised.
\<close>

theorem handleStkCallback_always_acknowledges:
  "\<exists>a u1. fst (handleStkCallback py h callback ip u) = (Inr a, u1)
     \<and> ((fst (handle_callback py h callback ip u) = (Inr (), u1)
          \<and> a = \<lparr>ResultCode = 0, ResultDesc = ''Accepted''\<rparr>)
        \<or> ((\<exists>e. fst (handle_callback py h callback ip u) = (Inl e, u1))
          \<and> a = \<lparr>ResultCode = 1, ResultDesc = ''Internal Error''\<rparr>))"
proof -
  obtain r u1 where run: "fst (handle_callback py h callback ip u) = (r, u1)"
    by (metis prod.collapse)
  note res = handleStkCallback_result[OF run]
  show ?thesis
  proof (cases r)
    case (Inl e)
    then show ?thesis using res run by auto
  next
    case (Inr x)
    then show ?thesis using res run by auto
  qed
qed

theorem handleStkCallback_always_acknowledges_witness:
  "fst (handleStkCallback sample_builtins fragile_handler (stk_payload 0) None 0)
     = (Inr \<lparr>ResultCode = 1, ResultDesc = ''Internal Error''\<rparr>, 1)
   \<and> fst (handleStkCallback sample_builtins fragile_handler (stk_payload 1032) None 0)
     = (Inr \<lparr>ResultCode = 0, ResultDesc = ''Accepted''\<rparr>, 2)
   \<and> fst (handleStkCallback sample_builtins fragile_handler (JObj [(''Body'', JList [])]) None 0)
     = (Inr \<lparr>ResultCode = 1, ResultDesc = ''Internal Error''\<rparr>, 0)"
proof -
  have raised: "fst (handle_callback sample_builtins fragile_handler (stk_payload 0) None 0)
      = (Inl (OtherError ''database is down'' None None), 1)"
    by code_simp
  have one: "fst (handleStkCallback sample_builtins fragile_handler (stk_payload 0) None 0)
     = (Inr \<lparr>ResultCode = 1, ResultDesc = ''Internal Error''\<rparr>, 1)"
    using handleStkCallback_always_acknowledges[of sample_builtins fragile_handler
            "stk_payload 0" None 0] raised
    by auto
  have two: "fst (handleStkCallback sample_builtins fragile_handler (stk_payload 1032) None 0)
     = (Inr \<lparr>ResultCode = 0, ResultDesc = ''Accepted''\<rparr>, 2)"
    by code_simp
  have three: "fst (handleStkCallback sample_builtins fragile_handler
                     (JObj [(''Body'', JList [])]) None 0)
     = (Inr \<lparr>ResultCode = 1, ResultDesc = ''Internal Error''\<rparr>, 0)"
    by code_simp
  show ?thesis using one two three by blast
qed

subsection \<open>Callback reconciliation: the trust check\<close>

lemma validate_callback_ip_disabled:
  "\<not> validate_ip h \<Longrightarrow> validate_callback_ip h ip"
  by (simp add: validate_callback_ip_def)

text \<open>
  C8, as amended. With IP validation on, a non-empty source address outside the
  allow-list is rejected before anything is parsed: \<open>handle_callback\<close> raises
  \<open>ValueError("Invalid callback IP: <address>")\<close> whatever the payload, logs one
  warning, invokes no handler and leaves the application state alone;
  \<open>handleStkCallback\<close> answers it with \<open>ResultCode 1\<close>.
\<close>

theorem untrusted_source_rejected_before_parsing:
  assumes "validate_ip h" and "ip \<noteq> []" and "ip \<notin> set (allowed_ips h)"
  shows "handle_callback py h callback (Some ip) u
           = ((Inl (ValueError (''Invalid callback IP: '' @ ip)), u),
              [LogWarning (''Invalid callback IP: '' @ ip)])
         \<and> handleStkCallback py h callback (Some ip) u
           = ((Inr \<lparr>ResultCode = 1, ResultDesc = ''Internal Error''\<rparr>, u),
              [LogWarning (''Invalid callback IP: '' @ ip)])"
  using assms
  by (simp add: handle_callback_def handleStkCallback_def validate_callback_ip_def
        create_callback_response_def)

theorem untrusted_source_rejected_before_parsing_witness:
  "handle_callback sample_builtins strict_handler (JObj [(''Body'', JList [])])
       (Some ''10.0.0.1'') 0
     = ((Inl (ValueError ''Invalid callback IP: 10.0.0.1''), 0),
        [LogWarning ''Invalid callback IP: 10.0.0.1''])
   \<and> handleStkCallback sample_builtins strict_handler (stk_payload 0) (Some ''10.0.0.1'') 0
     = ((Inr \<lparr>ResultCode = 1, ResultDesc = ''Internal Error''\<rparr>, 0),
        [LogWarning ''Invalid callback IP: 10.0.0.1''])"
proof -
  have v: "validate_ip strict_handler" by (simp add: strict_handler_def new_handler_def)
  have n: "''10.0.0.1'' \<noteq> []" by simp
  have o: "''10.0.0.1'' \<notin> set (allowed_ips strict_handler)" by code_simp
  note th = untrusted_source_rejected_before_parsing[OF v n o, of sample_builtins _ 0]
  show ?thesis
    using th[of "JObj [(''Body'', JList [])]"] th[of "stk_payload 0"] by simp
qed

text \<open>
  C8 as stated fails: the rejection is a \<open>ValueError\<close>, not an authorization error
  of \<open>errors.py\<close>. An empty address string skips the check like an absent one.
\<close>

theorem untrusted_source_raises_ValueError:
  "fst (fst (handle_callback sample_builtins strict_handler (stk_payload 0)
               (Some ''10.0.0.1'') 0))
     = Inl (ValueError ''Invalid callback IP: 10.0.0.1'')
   \<and> is_MpesaError (ValueError ''Invalid callback IP: 10.0.0.1'') = False"
  by code_simp

lemma empty_source_address_skips_trust_check:
  "handle_callback py h callback (Some []) u = handle_callback py h callback None u"
  by (simp add: handle_callback_def)

text \<open>
  C9, as amended. With IP validation off every source address is trusted. An absent or
  empty allow-list is replaced by the built-in Safaricom list: with validation on, the
  trusted addresses are then exactly those of that list.
\<close>

theorem empty_allow_list_falls_back_to_defaults:
  "(\<not> v \<longrightarrow> validate_callback_ip (new_handler succ fail cb v ips dup) ip)
   \<and> ((ips = None \<or> ips = Some []) \<longrightarrow>
        allowed_ips (new_handler succ fail cb v ips dup) = SAFARICOM_IPS
        \<and> validate_callback_ip (new_handler succ fail cb v ips dup) ip
            = (\<not> v \<or> ip \<in> set SAFARICOM_IPS))"
  by (auto simp: validate_callback_ip_def new_handler_def)

theorem empty_allow_list_falls_back_to_defaults_witness:
  "validate_callback_ip
     (new_handler (Some counting_hook) None None False (Some [''127.0.0.1'']) None
        :: (rat, nat) MpesaCallbackHandler) ''10.0.0.1''
   \<and> validate_callback_ip
       (new_handler (Some counting_hook) None None True (Some []) None
          :: (rat, nat) MpesaCallbackHandler) ''196.201.214.200''
   \<and> \<not> validate_callback_ip
       (new_handler (Some counting_hook) None None True None None
          :: (rat, nat) MpesaCallbackHandler) ''10.0.0.1''"
proof -
  let ?c = "Some (counting_hook :: rat ParsedCallbackData \<Rightarrow> nat \<Rightarrow> exn option \<times> nat)"
  let ?n = "None :: (rat ParsedCallbackData \<Rightarrow> nat \<Rightarrow> exn option \<times> nat) option"
  let ?d = "None :: (json \<Rightarrow> nat \<Rightarrow> (exn + bool) \<times> nat) option"
  have a: "''196.201.214.200'' \<in> set SAFARICOM_IPS" by code_simp
  have b: "''10.0.0.1'' \<notin> set SAFARICOM_IPS" by code_simp
  have one: "validate_callback_ip (new_handler ?c ?n ?n False (Some [''127.0.0.1'']) ?d) ''10.0.0.1''"
    using empty_allow_list_falls_back_to_defaults[of False ?c ?n ?n "Some [''127.0.0.1'']" ?d
            "''10.0.0.1''"]
    by blast
  have two: "validate_callback_ip (new_handler ?c ?n ?n True (Some []) ?d) ''196.201.214.200''"
    using empty_allow_list_falls_back_to_defaults[of True ?c ?n ?n "Some []" ?d
            "''196.201.214.200''"] a
    by blast
  have three: "\<not> validate_callback_ip (new_handler ?c ?n ?n True None ?d) ''10.0.0.1''"
    using empty_allow_list_falls_back_to_defaults[of True ?c ?n ?n None ?d "''10.0.0.1''"] b
    by blast
  show ?thesis using one two three by blast
qed

text \<open>
  C9 as stated fails: a handler built with an empty allow-list (validation on) does
  not trust an address outside the built-in list.
\<close>

theorem empty_allow_list_rejects_unknown_source:
  "validate_callback_ip
     (new_handler (Some counting_hook) None None True (Some []) None
        :: (rat, nat) MpesaCallbackHandler) ''10.0.0.1'' = False"
  by code_simp

text \<open>
  C10. With \<open>ip_address = None\<close> the trust check is skipped, whatever \<open>validate_ip\<close>
  and the allow-list are: the run is the run with validation off (for any address),
  and the run of a callback from any address that passes the check.
\<close>

theorem absent_source_address_skips_trust_check:
  "handle_callback py h callback None u
     = handle_callback py (h\<lparr>validate_ip := False\<rparr>) callback ip u
   \<and> (validate_callback_ip h a \<longrightarrow>
        handle_callback py h callback None u = handle_callback py h callback (Some a) u)"
proof -
  have dsp: "dispatch (h\<lparr>validate_ip := False\<rparr>) p s = dispatch h p s" for p s
    by (simp add: dispatch_def cong: prod.case_cong option.case_cong if_cong)
  have same: "process_callback py (h\<lparr>validate_ip := False\<rparr>) callback u
      = process_callback py h callback u"
    by (simp add: process_callback_def dsp Let_def
          cong: prod.case_cong option.case_cong sum.case_cong bool.case_cong)
  have "handle_callback py (h\<lparr>validate_ip := False\<rparr>) callback ip u
      = process_callback py h callback u"
    by (cases ip) (simp_all add: handle_callback_def validate_callback_ip_def same)
  then show ?thesis by (simp add: handle_callback_def)
qed

theorem absent_source_address_skips_trust_check_witness:
  "handle_callback sample_builtins fragile_handler (stk_payload 1032) None 0
     = handle_callback sample_builtins fragile_handler (stk_payload 1032)
         (Some ''196.201.214.200'') 0
   \<and> handle_callback sample_builtins fragile_handler (stk_payload 1032) None 0
     = ((Inr (), 2),
        [LogInfo ''Processing STK callback - CheckoutRequestID: ws_CO_191220191020363925, ResultCode: 1032'',
         AskedDuplicate (JStr ''ws_CO_191220191020363925''),
         Invoked OnCallback, Invoked OnFailure])"
proof -
  have t: "validate_callback_ip fragile_handler ''196.201.214.200''" by code_simp
  have a: "handle_callback sample_builtins fragile_handler (stk_payload 1032) None 0
     = handle_callback sample_builtins fragile_handler (stk_payload 1032)
         (Some ''196.201.214.200'') 0"
    using absent_source_address_skips_trust_check[of sample_builtins fragile_handler
            "stk_payload 1032" 0 None "''196.201.214.200''"] t
    by blast
  have b: "handle_callback sample_builtins fragile_handler (stk_payload 1032) None 0
     = ((Inr (), 2),
        [LogInfo ''Processing STK callback - CheckoutRequestID: ws_CO_191220191020363925, ResultCode: 1032'',
         AskedDuplicate (JStr ''ws_CO_191220191020363925''),
         Invoked OnCallback, Invoked OnFailure])"
    by code_simp
  show ?thesis using a b by blast
qed

end
